theory Spec2Isabelle
  imports Complex_Main
begin

section \<open>Message types and classification results\<close>

text \<open>
  \<^verbatim>\<open>models.py\<close> and \<^verbatim>\<open>message_classifier.py\<close> declare the same closed enumeration.
\<close>

datatype MessageType = OTP | TRANSACTION | BILL | SECURITY_ALERT | UNKNOWN

text \<open>The values of the metadata dictionary are booleans and short strings.\<close>

datatype meta_value = MBool bool | MStr string

record ClassificationResult =
  message_type :: MessageType
  confidence :: real
  metadata :: "(string \<times> meta_value) list"

section \<open>Python strings and regular expressions\<close>

text \<open>
  A Python \<^verbatim>\<open>str\<close> is modelled as a \<^typ>\<open>string\<close> whose characters are the code points
  below 256. On that range the character tables of \<^verbatim>\<open>re\<close> (for \<^verbatim>\<open>str\<close> patterns) and of
  \<^verbatim>\<open>str.lower\<close> are the ones below.
\<close>

definition code_point :: "char \<Rightarrow> nat" where
  "code_point c = of_char c"

definition is_digit :: "char \<Rightarrow> bool" where
  "is_digit c = (48 \<le> code_point c \<and> code_point c \<le> 57)"

definition is_space :: "char \<Rightarrow> bool" where
  "is_space c = (let n = code_point c in
     (9 \<le> n \<and> n \<le> 13) \<or> (28 \<le> n \<and> n \<le> 32) \<or> n = 133 \<or> n = 160)"

definition is_word :: "char \<Rightarrow> bool" where
  "is_word c = (let n = code_point c in
     (48 \<le> n \<and> n \<le> 57) \<or> (65 \<le> n \<and> n \<le> 90) \<or> n = 95 \<or> (97 \<le> n \<and> n \<le> 122) \<or>
     n = 170 \<or> n = 178 \<or> n = 179 \<or> n = 181 \<or> n = 185 \<or> n = 186 \<or>
     (188 \<le> n \<and> n \<le> 190) \<or> (192 \<le> n \<and> n \<le> 214) \<or> (216 \<le> n \<and> n \<le> 246) \<or> 248 \<le> n)"

definition lower_char :: "char \<Rightarrow> char" where
  "lower_char c = (let n = code_point c in
     if (65 \<le> n \<and> n \<le> 90) \<or> (192 \<le> n \<and> n \<le> 214) \<or> (216 \<le> n \<and> n \<le> 222)
     then char_of (n + 32) else c)"

definition lower :: "string \<Rightarrow> string" where
  "lower s = map lower_char s"

text \<open>\<^verbatim>\<open>sub in s\<close> on strings: \<^verbatim>\<open>sub\<close> occurs in \<^verbatim>\<open>s\<close> as a contiguous slice.\<close>

definition starts_with :: "string \<Rightarrow> string \<Rightarrow> bool" where
  "starts_with s sub = (take (length sub) s = sub)"

fun str_in :: "string \<Rightarrow> string \<Rightarrow> bool" where
  "str_in sub [] = (sub = [])"
| "str_in sub (c # cs) = (starts_with (c # cs) sub \<or> str_in sub cs)"

text \<open>
  The patterns of the repository use literals, the classes \<^verbatim>\<open>\d\<close>, \<^verbatim>\<open>\s\<close>, \<^verbatim>\<open>.\<close> and
  \<^verbatim>\<open>[\d,]\<close>, the assertion \<^verbatim>\<open>\b\<close>, alternation, and quantifiers that are applied to
  single-character items or, as \<^verbatim>\<open>?\<close>, to a group. \<^verbatim>\<open>CUni n\<close> is a literal given by its
  code point (the rupee sign of the amount patterns is code point 8377).
\<close>

datatype cset = CDigit | CSpace | CDot | CLit char | CUni nat | CUnion cset cset

datatype regex =
    Empty
  | Atom cset
  | Cat regex regex
  | Alt regex regex
  | Rep bool cset nat "nat option"
  | Bnd

text \<open>\<^verbatim>\<open>cmatch ic\<close>: one character against a class, \<^verbatim>\<open>ic\<close> being \<^verbatim>\<open>re.IGNORECASE\<close>.\<close>

fun cmatch :: "bool \<Rightarrow> cset \<Rightarrow> char \<Rightarrow> bool" where
  "cmatch ic CDigit c = is_digit c"
| "cmatch ic CSpace c = is_space c"
| "cmatch ic CDot c = (code_point c \<noteq> 10)"
| "cmatch ic (CLit p) c = (if ic then lower_char c = lower_char p else c = p)"
| "cmatch ic (CUni n) c = (code_point c = n)"
| "cmatch ic (CUnion a b) c = (cmatch ic a c \<or> cmatch ic b c)"

text \<open>
  A position of the matcher is the character before it (if any) and the text after it.
  \<^verbatim>\<open>rmatch\<close> returns the positions at which a match of the expression started here can
  end, in the order in which the backtracking matcher of \<^verbatim>\<open>re\<close> tries them: the head of
  the list is the match that \<^verbatim>\<open>re\<close> reports.
\<close>

type_synonym mpos = "char option \<times> string"

definition advance :: "mpos \<Rightarrow> nat \<Rightarrow> mpos" where
  "advance s k = (if k = 0 then s else (Some (snd s ! (k - 1)), drop k (snd s)))"

definition rep_positions :: "bool \<Rightarrow> (char \<Rightarrow> bool) \<Rightarrow> nat \<Rightarrow> nat option \<Rightarrow> mpos \<Rightarrow> mpos list" where
  "rep_positions greedy p lo hi s =
     (let run = length (takeWhile p (snd s));
          top = (case hi of None \<Rightarrow> run | Some h \<Rightarrow> min h run);
          counts = [lo ..< Suc top]
      in map (advance s) (if greedy then rev counts else counts))"

definition word_before :: "mpos \<Rightarrow> bool" where
  "word_before s = (case fst s of None \<Rightarrow> False | Some c \<Rightarrow> is_word c)"

definition word_after :: "mpos \<Rightarrow> bool" where
  "word_after s = (case snd s of [] \<Rightarrow> False | c # _ \<Rightarrow> is_word c)"

fun rmatch :: "bool \<Rightarrow> regex \<Rightarrow> mpos \<Rightarrow> mpos list" where
  "rmatch ic Empty s = [s]"
| "rmatch ic (Atom cs) s =
     (case snd s of [] \<Rightarrow> [] | c # r \<Rightarrow> if cmatch ic cs c then [(Some c, r)] else [])"
| "rmatch ic (Cat a b) s = concat (map (rmatch ic b) (rmatch ic a s))"
| "rmatch ic (Alt a b) s = rmatch ic a s @ rmatch ic b s"
| "rmatch ic (Rep greedy cs lo hi) s = rep_positions greedy (cmatch ic cs) lo hi s"
| "rmatch ic Bnd s = (if word_before s \<noteq> word_after s then [s] else [])"

text \<open>Builders for the pattern tables.\<close>

definition lit :: "string \<Rightarrow> regex" where
  "lit s = foldr (\<lambda>c r. Cat (Atom (CLit c)) r) s Empty"

definition seq :: "regex list \<Rightarrow> regex" where
  "seq rs = foldr Cat rs Empty"

fun alts :: "regex list \<Rightarrow> regex" where
  "alts [] = Empty"
| "alts [r] = r"
| "alts (r # rs) = Alt r (alts rs)"

definition opt :: "regex \<Rightarrow> regex" where
  "opt r = Alt r Empty"

text \<open>\<^verbatim>\<open>re.search(pattern, text) is not None\<close>: some position of the text starts a match.\<close>

fun search_from :: "bool \<Rightarrow> regex \<Rightarrow> char option \<Rightarrow> string \<Rightarrow> bool" where
  "search_from ic r p [] = (rmatch ic r (p, []) \<noteq> [])"
| "search_from ic r p (c # cs) = (rmatch ic r (p, c # cs) \<noteq> [] \<or> search_from ic r (Some c) cs)"

definition re_search :: "bool \<Rightarrow> regex \<Rightarrow> string \<Rightarrow> bool" where
  "re_search ic r s = search_from ic r None s"

text \<open>\<^verbatim>\<open>re.search(pattern, text)\<close>: the text of the leftmost match, \<^verbatim>\<open>None\<close> without one.\<close>

fun find_from :: "bool \<Rightarrow> regex \<Rightarrow> char option \<Rightarrow> string \<Rightarrow> string option" where
  "find_from ic r p [] = (case rmatch ic r (p, []) of [] \<Rightarrow> None | _ # _ \<Rightarrow> Some [])"
| "find_from ic r p (c # cs) =
     (case rmatch ic r (p, c # cs) of
        [] \<Rightarrow> find_from ic r (Some c) cs
      | e # _ \<Rightarrow> Some (take (length (c # cs) - length (snd e)) (c # cs)))"

definition re_find :: "bool \<Rightarrow> regex \<Rightarrow> string \<Rightarrow> string option" where
  "re_find ic r s = find_from ic r None s"

text \<open>
  \<^verbatim>\<open>re.sub(pattern, repl, text)\<close> for a replacement without group references: the
  non-overlapping matches are replaced from left to right. After an empty match the next
  character is copied and the scan moves on.
\<close>

function sub_from :: "regex \<Rightarrow> string \<Rightarrow> char option \<Rightarrow> string \<Rightarrow> string" where
  "sub_from r repl p [] = (case rmatch False r (p, []) of [] \<Rightarrow> [] | _ # _ \<Rightarrow> repl)"
| "sub_from r repl p (c # cs) =
     (case rmatch False r (p, c # cs) of
        [] \<Rightarrow> c # sub_from r repl (Some c) cs
      | e # _ \<Rightarrow>
          if length (snd e) < length (c # cs)
          then repl @ sub_from r repl (fst e) (snd e)
          else repl @ c # sub_from r repl (Some c) cs)"
  by pat_completeness auto
termination
  by (relation "measure (\<lambda>(r, repl, p, s). length s)") auto

definition re_sub :: "regex \<Rightarrow> string \<Rightarrow> string \<Rightarrow> string" where
  "re_sub r repl s = sub_from r repl None s"

section \<open>Settings\<close>

text \<open>
  The fields of \<^verbatim>\<open>config.Settings\<close> that the pipeline reads. The values come from the
  environment; \<^verbatim>\<open>default_settings\<close> holds the defaults of \<^verbatim>\<open>config.py\<close>.
\<close>

record Settings =
  whatsapp_recipient_number :: string
  whatsapp_template_otp :: string
  whatsapp_template_transaction :: string
  whatsapp_template_bill :: string
  whatsapp_template_security :: string
  ttl_otp :: int
  ttl_transaction :: int
  ttl_bill :: int
  ttl_security :: int

definition default_settings :: "string \<Rightarrow> Settings" where
  "default_settings recipient =
     \<lparr> whatsapp_recipient_number = recipient,
       whatsapp_template_otp = ''otp_notification'',
       whatsapp_template_transaction = ''transaction_alert'',
       whatsapp_template_bill = ''bill_notification'',
       whatsapp_template_security = ''security_alert'',
       ttl_otp = 300, ttl_transaction = 600, ttl_bill = 900, ttl_security = 600 \<rparr>"

section \<open>The classifier (\<^verbatim>\<open>message_classifier.py\<close>)\<close>

definition otp_keyword :: regex where
  "otp_keyword = alts [lit ''OTP'', lit ''otp'', lit ''code'', lit ''verification'', lit ''PIN'', lit ''pin'']"

definition digits_4_8 :: regex where
  "digits_4_8 = Rep True CDigit 4 (Some 8)"

definition lazy_any :: regex where
  "lazy_any = Rep False CDot 0 None"

definition spaces1 :: regex where
  "spaces1 = Rep True CSpace 1 None"

definition spaces0 :: regex where
  "spaces0 = Rep True CSpace 0 None"

definition OTP_PATTERNS :: "regex list" where
  "OTP_PATTERNS =
     [ seq [Bnd, otp_keyword, Bnd, lazy_any, digits_4_8, Bnd],
       seq [Bnd, digits_4_8, Bnd, lazy_any, otp_keyword, Bnd],
       seq [Bnd, alts [lit ''your'', lit ''the''], spaces1, alts [lit ''OTP'', lit ''code'', lit ''PIN''],
            spaces1, alts [lit ''is'', lit '':''], spaces0, digits_4_8, Bnd] ]"

definition xx_digits :: regex where
  "xx_digits = seq [Bnd, lit ''XX'', Rep True CDigit 1 None, Bnd]"

definition TRANSACTION_KEYWORDS :: "regex list" where
  "TRANSACTION_KEYWORDS =
     [ seq [Bnd, alts [lit ''debited'', lit ''credited'', lit ''withdrawn'', lit ''deposited'',
                       lit ''transferred''], Bnd],
       seq [Bnd, alts [lit ''debit'', lit ''credit'', lit ''withdrawal'', lit ''deposit'',
                       lit ''transfer''], Bnd],
       seq [Bnd, lit ''A/c'', Bnd],
       seq [Bnd, lit ''account'', Bnd, lazy_any, xx_digits],
       seq [Bnd, lit ''card'', Bnd, lazy_any, xx_digits] ]"

definition currency :: regex where
  "currency = alts [Cat (lit ''Rs'') (Rep True (CLit CHR ''.'') 0 (Some 1)), lit ''INR'', Atom (CUni 8377)]"

definition number :: regex where
  "number = Cat (Rep True (CUnion CDigit (CLit CHR '','')) 1 None)
                (opt (Cat (Atom (CLit CHR ''.'')) (Rep True CDigit 2 (Some 2))))"

definition AMOUNT_PATTERNS :: "regex list" where
  "AMOUNT_PATTERNS = [ seq [currency, spaces0, number], seq [number, spaces0, currency] ]"

definition BILL_KEYWORDS :: "regex list" where
  "BILL_KEYWORDS =
     [ seq [Bnd, alts [lit ''bill'', lit ''invoice'', lit ''payment'', lit ''due'', lit ''overdue''], Bnd],
       seq [Bnd, lit ''pay'', spaces1, alts [lit ''by'', lit ''before''], Bnd],
       seq [Bnd, lit ''due'', spaces1, alts [lit ''date'', lit ''on''], Bnd] ]"

definition SECURITY_KEYWORDS :: "regex list" where
  "SECURITY_KEYWORDS =
     [ seq [Bnd, alts [lit ''alert'', lit ''security'', lit ''suspicious'', lit ''unauthorized'',
                       lit ''blocked'', lit ''locked''], Bnd],
       seq [Bnd, alts [lit ''fraud'', lit ''scam'', lit ''phishing''], Bnd],
       seq [Bnd, lit ''new'', spaces1, alts [lit ''device'', lit ''location'', lit ''login''], Bnd],
       seq [Bnd, alts [lit ''verify'', lit ''confirm''], spaces1, alts [lit ''identity'', lit ''account''], Bnd] ]"

definition otp_context_words :: "string list" where
  "otp_context_words = [''otp'', ''code'', ''verification'', ''pin'', ''password'']"

text \<open>The number of patterns of a table that the message matches, ignoring case.\<close>

definition keyword_score :: "regex list \<Rightarrow> string \<Rightarrow> nat" where
  "keyword_score patterns msg = length (filter (\<lambda>pattern. re_search True pattern msg) patterns)"

text \<open>The amount loop: the first amount pattern found ends the loop, so it adds one at most.\<close>

definition amount_found :: "string \<Rightarrow> bool" where
  "amount_found msg = list_ex (\<lambda>pattern. re_search False pattern msg) AMOUNT_PATTERNS"

definition check_otp :: "string \<Rightarrow> string \<Rightarrow> ClassificationResult option" where
  "check_otp msg message_lower =
     (if list_ex (\<lambda>pattern. re_search True pattern msg) OTP_PATTERNS
      then Some \<lparr> message_type = OTP, confidence = 0.95,
                  metadata = [(''has_otp'', MBool True), (''urgency'', MStr ''high'')] \<rparr>
      else if re_search False (seq [Bnd, digits_4_8, Bnd]) msg
              \<and> list_ex (\<lambda>word. str_in word message_lower) otp_context_words
      then Some \<lparr> message_type = OTP, confidence = 0.85,
                  metadata = [(''has_otp'', MBool True), (''urgency'', MStr ''high'')] \<rparr>
      else None)"

definition check_transaction :: "string \<Rightarrow> string \<Rightarrow> ClassificationResult option" where
  "check_transaction msg message_lower =
     (let has_amount = amount_found msg;
          transaction_score = keyword_score TRANSACTION_KEYWORDS msg + (if has_amount then 1 else 0)
      in if transaction_score \<ge> 2
         then Some \<lparr> message_type = TRANSACTION, confidence = (if has_amount then 0.9 else 0.75),
                     metadata = [(''has_amount'', MBool has_amount), (''urgency'', MStr ''medium'')] \<rparr>
         else None)"

definition check_security_alert :: "string \<Rightarrow> string \<Rightarrow> ClassificationResult option" where
  "check_security_alert msg message_lower =
     (let security_score = keyword_score SECURITY_KEYWORDS msg
      in if security_score \<ge> 1
         then Some \<lparr> message_type = SECURITY_ALERT, confidence = 0.85,
                     metadata = [(''urgency'', MStr ''high'')] \<rparr>
         else None)"

definition check_bill :: "string \<Rightarrow> string \<Rightarrow> ClassificationResult option" where
  "check_bill msg message_lower =
     (let has_amount = amount_found msg;
          bill_score = keyword_score BILL_KEYWORDS msg + (if has_amount then 1 else 0)
      in if bill_score \<ge> 2
         then Some \<lparr> message_type = BILL, confidence = 0.8,
                     metadata = [(''has_amount'', MBool has_amount), (''urgency'', MStr ''low'')] \<rparr>
         else None)"

definition classify :: "string \<Rightarrow> string \<Rightarrow> ClassificationResult" where
  "classify message_body sender =
     (let message_lower = lower message_body in
      case check_otp message_body message_lower of
        Some otp_result \<Rightarrow> otp_result
      | None \<Rightarrow>
     (case check_transaction message_body message_lower of
        Some transaction_result \<Rightarrow> transaction_result
      | None \<Rightarrow>
     (case check_security_alert message_body message_lower of
        Some security_result \<Rightarrow> security_result
      | None \<Rightarrow>
     (case check_bill message_body message_lower of
        Some bill_result \<Rightarrow> bill_result
      | None \<Rightarrow>
          \<lparr> message_type = UNKNOWN, confidence = 0.0,
            metadata = [(''reason'', MStr ''No matching patterns'')] \<rparr>))))"

section \<open>The template manager (\<^verbatim>\<open>template_manager.py\<close>)\<close>

text \<open>A template parameter is the dictionary \<^verbatim>\<open>{"type": ..., "text": ...}\<close>.\<close>

datatype template_param = Param (param_type: string) (param_text: string)

definition get_template_name :: "Settings \<Rightarrow> MessageType \<Rightarrow> string" where
  "get_template_name cfg mt =
     (case mt of
        OTP \<Rightarrow> whatsapp_template_otp cfg
      | TRANSACTION \<Rightarrow> whatsapp_template_transaction cfg
      | BILL \<Rightarrow> whatsapp_template_bill cfg
      | SECURITY_ALERT \<Rightarrow> whatsapp_template_security cfg
      | UNKNOWN \<Rightarrow> whatsapp_template_otp cfg)"

definition mask_sensitive_data :: "string \<Rightarrow> string" where
  "mask_sensitive_data text =
     (let masked = re_sub (seq [currency, spaces0, number]) ''Rs ****'' text;
          masked = re_sub xx_digits ''XX****'' masked;
          masked = re_sub (seq [Bnd, Rep True CDigit 4 None, Bnd]) ''****'' masked
      in if length masked > 200 then take 197 masked @ ''...'' else masked)"

definition render_otp_params :: "string \<Rightarrow> string \<Rightarrow> template_param list" where
  "render_otp_params sender message_content =
     (let otp_value = (case re_find False (seq [Bnd, digits_4_8, Bnd]) message_content of
                         Some g \<Rightarrow> g | None \<Rightarrow> ''******'')
      in [Param ''text'' sender, Param ''text'' otp_value])"

definition render_transaction_params :: "string \<Rightarrow> string \<Rightarrow> template_param list" where
  "render_transaction_params sender message_content =
     (let message_lower = lower message_content;
          transaction_type =
            (if str_in ''debit'' message_lower \<or> str_in ''withdrawn'' message_lower then ''Debit Alert''
             else if str_in ''credit'' message_lower \<or> str_in ''deposit'' message_lower then ''Credit Alert''
             else ''Transaction Alert'');
          summary = mask_sensitive_data message_content
      in [Param ''text'' transaction_type, Param ''text'' sender, Param ''text'' summary])"

definition render_bill_params :: "string \<Rightarrow> string \<Rightarrow> template_param list" where
  "render_bill_params sender message_content =
     (let summary = mask_sensitive_data message_content
      in [Param ''text'' sender, Param ''text'' summary])"

definition render_security_params :: "string \<Rightarrow> string \<Rightarrow> template_param list" where
  "render_security_params sender message_content =
     (let summary = (if length message_content > 200 then take 200 message_content else message_content)
      in [Param ''text'' sender, Param ''text'' summary])"

definition render_generic_params :: "string \<Rightarrow> string \<Rightarrow> template_param list" where
  "render_generic_params sender message_content =
     (let summary = (if length message_content > 200 then take 200 message_content else message_content)
      in [Param ''text'' sender, Param ''text'' summary])"

definition render_template_params :: "MessageType \<Rightarrow> string \<Rightarrow> string \<Rightarrow> template_param list" where
  "render_template_params mt sender message_content =
     (if mt = OTP then render_otp_params sender message_content
      else if mt = TRANSACTION then render_transaction_params sender message_content
      else if mt = BILL then render_bill_params sender message_content
      else if mt = SECURITY_ALERT then render_security_params sender message_content
      else render_generic_params sender message_content)"

section \<open>The crypto service (\<^verbatim>\<open>crypto_service.py\<close>)\<close>

text \<open>
  The primitives come from \<^verbatim>\<open>hmac\<close>, \<^verbatim>\<open>hashlib\<close>, \<^verbatim>\<open>base64\<close> and \<^verbatim>\<open>cryptography\<close>; they are
  parameters of the model. A primitive that can raise returns an \<^verbatim>\<open>option\<close>, and the AEAD
  decryption tells the \<^verbatim>\<open>InvalidTag\<close> exception from any other exception.
\<close>

type_synonym bytes = "char list"

datatype aead_outcome = Decrypted bytes | InvalidTag | AeadError

record Primitives =
  utf8_encode :: "string \<Rightarrow> bytes"
  utf8_decode :: "bytes \<Rightarrow> string option"
  b64decode :: "string \<Rightarrow> bytes option"
  hmac_sha256_hexdigest :: "bytes \<Rightarrow> bytes \<Rightarrow> string"
  aesgcm_decrypt :: "bytes \<Rightarrow> bytes \<Rightarrow> bytes \<Rightarrow> aead_outcome"
  sha256_hexdigest :: "bytes \<Rightarrow> string"

record CryptoService =
  aes_key :: bytes
  hmac_key :: bytes

datatype py_error = ValueError string

definition is_ascii :: "string \<Rightarrow> bool" where
  "is_ascii s = list_all (\<lambda>c. code_point c < 128) s"

text \<open>\<^verbatim>\<open>hmac.compare_digest\<close> on two \<^verbatim>\<open>str\<close>: a \<^verbatim>\<open>TypeError\<close> (here \<^verbatim>\<open>None\<close>) unless both are ASCII.\<close>

definition compare_digest :: "string \<Rightarrow> string \<Rightarrow> bool option" where
  "compare_digest a b = (if is_ascii a \<and> is_ascii b then Some (a = b) else None)"

definition verify_hmac :: "Primitives \<Rightarrow> CryptoService \<Rightarrow> string \<Rightarrow> string \<Rightarrow> bool" where
  "verify_hmac P svc payload signature =
     (let expected_signature = hmac_sha256_hexdigest P (hmac_key svc) (utf8_encode P payload)
      in case compare_digest expected_signature signature of
           Some r \<Rightarrow> r
         | None \<Rightarrow> False)"

definition decrypt_otp :: "Primitives \<Rightarrow> CryptoService \<Rightarrow> string \<Rightarrow> py_error + string" where
  "decrypt_otp P svc payload =
     (case b64decode P payload of
        None \<Rightarrow> Inl (ValueError ''Decryption failed'')
      | Some encrypted_data \<Rightarrow>
          (let iv = take 12 encrypted_data;
               ciphertext_with_tag = drop 12 encrypted_data
           in case aesgcm_decrypt P (aes_key svc) iv ciphertext_with_tag of
                InvalidTag \<Rightarrow> Inl (ValueError ''Decryption failed: Invalid authentication tag'')
              | AeadError \<Rightarrow> Inl (ValueError ''Decryption failed'')
              | Decrypted plaintext \<Rightarrow>
                  (case utf8_decode P plaintext of
                     None \<Rightarrow> Inl (ValueError ''Decryption failed'')
                   | Some s \<Rightarrow> Inr s)))"

definition validate_and_decrypt :: "Primitives \<Rightarrow> CryptoService \<Rightarrow> string \<Rightarrow> string \<Rightarrow> py_error + string" where
  "validate_and_decrypt P svc payload signature =
     (if \<not> verify_hmac P svc payload signature
      then Inl (ValueError ''HMAC verification failed'')
      else decrypt_otp P svc payload)"

section \<open>The storage service (\<^verbatim>\<open>storage_service.py\<close>)\<close>

text \<open>
  The Redis client is external: \<^verbatim>\<open>redis_exists\<close> gives the value of the awaited \<^verbatim>\<open>EXISTS\<close>
  command and \<^verbatim>\<open>redis_setex\<close> tells whether the awaited \<^verbatim>\<open>SETEX\<close> command completed;
  \<^verbatim>\<open>None\<close> and \<^verbatim>\<open>False\<close> stand for a raised exception. Without a client the service keeps
  the dictionary \<^verbatim>\<open>memory_store\<close>.
\<close>

record StoredEntry =
  entry_sender :: string
  entry_message_type :: string
  expires_at :: real

record RedisClient =
  redis_exists :: "string \<Rightarrow> int option"
  redis_setex :: "string \<Rightarrow> int \<Rightarrow> string \<Rightarrow> bool"

record StorageService =
  redis :: "RedisClient option"
  memory_store :: "string \<rightharpoonup> StoredEntry"

definition type_value :: "MessageType \<Rightarrow> string" where
  "type_value mt =
     (case mt of OTP \<Rightarrow> ''OTP'' | TRANSACTION \<Rightarrow> ''TRANSACTION'' | BILL \<Rightarrow> ''BILL''
      | SECURITY_ALERT \<Rightarrow> ''SECURITY_ALERT'' | UNKNOWN \<Rightarrow> ''UNKNOWN'')"

definition get_ttl_for_type :: "Settings \<Rightarrow> MessageType \<Rightarrow> int" where
  "get_ttl_for_type cfg mt =
     (case mt of
        OTP \<Rightarrow> ttl_otp cfg
      | TRANSACTION \<Rightarrow> ttl_transaction cfg
      | BILL \<Rightarrow> ttl_bill cfg
      | SECURITY_ALERT \<Rightarrow> ttl_security cfg
      | UNKNOWN \<Rightarrow> ttl_otp cfg)"

definition cleanup_expired :: "(string \<rightharpoonup> StoredEntry) \<Rightarrow> real \<Rightarrow> (string \<rightharpoonup> StoredEntry)" where
  "cleanup_expired store current_time =
     (\<lambda>key. case store key of
               None \<Rightarrow> None
             | Some d \<Rightarrow> if current_time \<ge> expires_at d then None else Some d)"

text \<open>\<^verbatim>\<open>exists\<close>; the time is the reading of \<^verbatim>\<open>time.time()\<close> inside the sweep.\<close>

definition exists_key :: "StorageService \<Rightarrow> real \<Rightarrow> string \<Rightarrow> bool \<times> StorageService" where
  "exists_key svc now key =
     (case redis svc of
        Some client \<Rightarrow>
          (case redis_exists client key of
             Some n \<Rightarrow> (n > 0, svc)
           | None \<Rightarrow> (False, svc))
      | None \<Rightarrow>
          (let store = cleanup_expired (memory_store svc) now
           in (store key \<noteq> None, svc\<lparr>memory_store := store\<rparr>)))"

text \<open>
  One call of \<^verbatim>\<open>store_message\<close> reads the clock up to three times: in the sweep of
  \<^verbatim>\<open>exists\<close>, in its own sweep, and for the expiry of the new entry.
\<close>

record Clock =
  t_request :: real
  t_exists :: real
  t_cleanup :: real
  t_stamp :: real

definition store_message ::
  "Settings \<Rightarrow> StorageService \<Rightarrow> Clock \<Rightarrow> string \<Rightarrow> string \<Rightarrow> MessageType \<Rightarrow> bool \<times> StorageService" where
  "store_message cfg svc clock msg_hash sndr mt =
     (case exists_key svc (t_exists clock) msg_hash of
        (True, svc1) \<Rightarrow> (False, svc1)
      | (False, svc1) \<Rightarrow>
          (let ttl = get_ttl_for_type cfg mt
           in case redis svc1 of
                Some client \<Rightarrow>
                  (if redis_setex client msg_hash ttl sndr then (True, svc1) else (False, svc1))
              | None \<Rightarrow>
                  (let store = cleanup_expired (memory_store svc1) (t_cleanup clock);
                       d = \<lparr> entry_sender = sndr, entry_message_type = type_value mt,
                             expires_at = t_stamp clock + real_of_int ttl \<rparr>
                   in (True, svc1\<lparr>memory_store := store(msg_hash \<mapsto> d)\<rparr>))))"

section \<open>The WhatsApp service (\<^verbatim>\<open>whatsapp_service.py\<close>)\<close>

text \<open>
  The request body that varies, and what the POST gives back: a response with its status
  code and the id found in its body (\<^verbatim>\<open>None\<close> when the body has none or cannot be read),
  a timeout, or another exception.
\<close>

record WhatsAppPayload =
  wa_to :: string
  wa_template :: string
  wa_parameters :: "template_param list"

datatype post_result = Response nat "string option" | TimeoutException | RequestException

definition send_message ::
  "Settings \<Rightarrow> (WhatsAppPayload \<Rightarrow> post_result) \<Rightarrow> string \<Rightarrow> string \<Rightarrow> MessageType
     \<Rightarrow> string option \<times> WhatsAppPayload list" where
  "send_message cfg post message_content sndr mt =
     (let template_name = get_template_name cfg mt;
          template_params = render_template_params mt sndr message_content;
          payload = \<lparr> wa_to = whatsapp_recipient_number cfg, wa_template = template_name,
                      wa_parameters = template_params \<rparr>
      in (case post payload of
            Response code message_id \<Rightarrow> if code = 200 then message_id else None
          | TimeoutException \<Rightarrow> None
          | RequestException \<Rightarrow> None,
          [payload]))"

section \<open>The endpoint (\<^verbatim>\<open>main.py\<close>)\<close>

record EncryptedMessageRequest =
  encrypted_payload :: string
  hmac_signature :: string
  sender :: string
  req_message_type :: MessageType
  timestamp :: int
  message_hash :: "string option"

record ForwardResponse =
  success :: bool
  message :: string
  whatsapp_message_id :: "string option"

datatype http_error = HTTPException nat string

text \<open>
  What the endpoint is run with: the primitives, the two services that hold no state, the
  POST of the HTTP client, and the rendering of a message type inside an f-string (which
  depends on the Python version).
\<close>

record Env =
  primitives :: Primitives
  crypto_service :: CryptoService
  settings :: Settings
  http_post :: "WhatsAppPayload \<Rightarrow> post_result"
  format_type :: "MessageType \<Rightarrow> string"

text \<open>\<^verbatim>\<open>int(x)\<close> on a float truncates towards zero.\<close>

definition py_int :: "real \<Rightarrow> int" where
  "py_int x = (if x \<ge> 0 then \<lfloor>x\<rfloor> else \<lceil>x\<rceil>)"

definition max_time_diff :: "MessageType \<Rightarrow> int" where
  "max_time_diff mt = (if mt = OTP then 300 else 600)"

definition timestamp_rejected :: "int \<Rightarrow> int \<Rightarrow> MessageType \<Rightarrow> bool" where
  "timestamp_rejected current_time ts mt =
     (let time_diff = \<bar>current_time - ts\<bar> in time_diff > max_time_diff mt)"

definition resolve_type :: "EncryptedMessageRequest \<Rightarrow> string \<Rightarrow> MessageType" where
  "resolve_type req decrypted_message =
     (if req_message_type req = UNKNOWN
      then message_type (classify decrypted_message (sender req))
      else req_message_type req)"

definition dedup_hash :: "Primitives \<Rightarrow> EncryptedMessageRequest \<Rightarrow> string \<Rightarrow> string" where
  "dedup_hash P req decrypted_message =
     (case message_hash req of
        Some h \<Rightarrow> if h \<noteq> [] then h else sha256_hexdigest P (utf8_encode P decrypted_message)
      | None \<Rightarrow> sha256_hexdigest P (utf8_encode P decrypted_message))"

text \<open>
  The result is the response or the raised \<^verbatim>\<open>HTTPException\<close>, the storage service after the
  request, and the bodies that were posted to the outbound channel.
\<close>

definition forward_message ::
  "Env \<Rightarrow> Clock \<Rightarrow> StorageService \<Rightarrow> EncryptedMessageRequest
     \<Rightarrow> (http_error + ForwardResponse) \<times> StorageService \<times> WhatsAppPayload list" where
  "forward_message env clock svc req =
     (let current_time = py_int (t_request clock) in
      if timestamp_rejected current_time (timestamp req) (req_message_type req)
      then (Inl (HTTPException 400 ''Request timestamp is invalid''), svc, [])
      else
        case validate_and_decrypt (primitives env) (crypto_service env)
               (encrypted_payload req) (hmac_signature req) of
          Inl e \<Rightarrow> (Inl (HTTPException 401 ''Authentication failed''), svc, [])
        | Inr decrypted_message \<Rightarrow>
            (let mt = resolve_type req decrypted_message;
                 msg_hash = dedup_hash (primitives env) req decrypted_message
             in case store_message (settings env) svc clock msg_hash (sender req) mt of
                  (False, svc1) \<Rightarrow>
                    (Inr \<lparr> success = True,
                           message = format_type env mt @ '' message already forwarded'',
                           whatsapp_message_id = None \<rparr>, svc1, [])
                | (True, svc1) \<Rightarrow>
                    (case send_message (settings env) (http_post env) decrypted_message (sender req) mt of
                       (None, posted) \<Rightarrow>
                         (Inl (HTTPException 500 ''Failed to send WhatsApp message''), svc1, posted)
                     | (Some wid, posted) \<Rightarrow>
                         if wid = []
                         then (Inl (HTTPException 500 ''Failed to send WhatsApp message''), svc1, posted)
                         else (Inr \<lparr> success = True,
                                     message = format_type env mt @ '' message forwarded successfully'',
                                     whatsapp_message_id = Some wid \<rparr>, svc1, posted))))"

section \<open>A sample environment\<close>

text \<open>
  Concrete stand-ins for the external parts, for evaluating the pipeline on concrete
  requests. The transport decoder accepts the texts over the Base64 alphabet whose length
  is a multiple of four and hands their characters on as bytes; the stand-in cipher leaves
  the text as it is, refuses a nonce outside 8 to 128 bytes, and accepts exactly the tag
  of sixteen letters \<^verbatim>\<open>A\<close> (data shorter than a tag raise \<^verbatim>\<open>InvalidTag\<close>, as in the
  library); the stand-in MAC and hash are the hexadecimal text of their input.
\<close>

definition hex_digit :: "nat \<Rightarrow> char" where
  "hex_digit n = (if n < 10 then char_of (48 + n) else char_of (87 + n))"

definition hex_of :: "bytes \<Rightarrow> string" where
  "hex_of b = concat (map (\<lambda>c. [hex_digit (code_point c div 16), hex_digit (code_point c mod 16)]) b)"

definition b64_char :: "char \<Rightarrow> bool" where
  "b64_char c = (let n = code_point c in
     (65 \<le> n \<and> n \<le> 90) \<or> (97 \<le> n \<and> n \<le> 122) \<or> (48 \<le> n \<and> n \<le> 57) \<or> n = 43 \<or> n = 47)"

definition sample_b64decode :: "string \<Rightarrow> bytes option" where
  "sample_b64decode s = (if list_all b64_char s \<and> length s mod 4 = 0 then Some s else None)"

definition sample_aesgcm_decrypt :: "bytes \<Rightarrow> bytes \<Rightarrow> bytes \<Rightarrow> aead_outcome" where
  "sample_aesgcm_decrypt key nonce data =
     (if length nonce < 8 \<or> length nonce > 128 then AeadError
      else if length data < 16 then InvalidTag
      else if drop (length data - 16) data = replicate 16 CHR ''A''
      then Decrypted (take (length data - 16) data)
      else InvalidTag)"

definition sample_primitives :: Primitives where
  "sample_primitives =
     \<lparr> utf8_encode = (\<lambda>s. s),
       utf8_decode = (\<lambda>b. if is_ascii b then Some b else None),
       b64decode = sample_b64decode,
       hmac_sha256_hexdigest = (\<lambda>key data. hex_of (key @ data)),
       aesgcm_decrypt = sample_aesgcm_decrypt,
       sha256_hexdigest = hex_of \<rparr>"

definition sample_env :: Env where
  "sample_env =
     \<lparr> primitives = sample_primitives,
       crypto_service = \<lparr> aes_key = ''k'', hmac_key = ''m'' \<rparr>,
       settings = default_settings ''911234567890'',
       http_post = (\<lambda>payload. Response 200 (Some ''wamid.1'')),
       format_type = type_value \<rparr>"

text \<open>A sample payload: a nonce of twelve letters, the text, and the accepted tag.\<close>

definition sample_payload :: "string \<Rightarrow> string" where
  "sample_payload txt = replicate 12 CHR ''A'' @ txt @ replicate 16 CHR ''A''"

definition sample_signature :: "string \<Rightarrow> string" where
  "sample_signature txt = hex_of (''m'' @ sample_payload txt)"

definition sample_request :: "string \<Rightarrow> MessageType \<Rightarrow> int \<Rightarrow> string option \<Rightarrow> EncryptedMessageRequest" where
  "sample_request txt mt ts h =
     \<lparr> encrypted_payload = sample_payload txt,
       hmac_signature = sample_signature txt,
       sender = ''BANK'',
       req_message_type = mt,
       timestamp = ts,
       message_hash = h \<rparr>"

definition sample_clock :: "real \<Rightarrow> Clock" where
  "sample_clock t = \<lparr> t_request = t, t_exists = t, t_cleanup = t, t_stamp = t \<rparr>"

definition memory_service :: StorageService where
  "memory_service = \<lparr> redis = None, memory_store = Map.empty \<rparr>"

text \<open>A Redis client whose connection is lost: every command raises.\<close>

definition unreachable_redis :: RedisClient where
  "unreachable_redis = \<lparr> redis_exists = (\<lambda>key. None), redis_setex = (\<lambda>key ttl v. False) \<rparr>"

text \<open>
  The client that the service builds when \<^verbatim>\<open>redis_url\<close> is set and the server answers:
  \<^verbatim>\<open>redis.from_url\<close> of the synchronous package \<^verbatim>\<open>redis\<close>, whose \<^verbatim>\<open>ping\<close> the constructor calls
  without \<^verbatim>\<open>await\<close>. Its commands return an \<^verbatim>\<open>int\<close> or a \<^verbatim>\<open>bool\<close>, and \<^verbatim>\<open>await\<close> of such a
  value raises \<^verbatim>\<open>TypeError\<close>: each awaited command of \<^verbatim>\<open>exists\<close> and \<^verbatim>\<open>store_message\<close> raises
  once the server has run it, whatever the server holds.
\<close>

definition synchronous_redis :: RedisClient where
  "synchronous_redis = \<lparr> redis_exists = (\<lambda>key. None), redis_setex = (\<lambda>key ttl v. False) \<rparr>"

text \<open>The in-memory service that holds one fingerprint, registered by the sample sender.\<close>

definition registered_service :: "string \<Rightarrow> real \<Rightarrow> StorageService" where
  "registered_service h expiry =
     \<lparr> redis = None,
       memory_store = [h \<mapsto> \<lparr> entry_sender = ''BANK'', entry_message_type = ''OTP'',
                              expires_at = expiry \<rparr>] \<rparr>"

text \<open>A sample payload whose tag has been replaced.\<close>

definition tampered_payload :: "string \<Rightarrow> string" where
  "tampered_payload txt = replicate 12 CHR ''A'' @ txt @ replicate 16 CHR ''B''"

section \<open>The stages of the endpoint\<close>

text \<open>
  What \<^verbatim>\<open>forward_message\<close> returns at each of its exits, and what \<^verbatim>\<open>store_message\<close> does
  with the in-memory dictionary and with the Redis client of the source.
\<close>

lemma forward_message_stale:
  "timestamp_rejected (py_int (t_request clock)) (timestamp req) (req_message_type req) \<Longrightarrow>
   forward_message env clock svc req =
     (Inl (HTTPException 400 ''Request timestamp is invalid''), svc, [])"
  by (simp add: forward_message_def)

lemma forward_message_unauthenticated:
  "\<not> timestamp_rejected (py_int (t_request clock)) (timestamp req) (req_message_type req) \<Longrightarrow>
   validate_and_decrypt (primitives env) (crypto_service env)
     (encrypted_payload req) (hmac_signature req) = Inl e \<Longrightarrow>
   forward_message env clock svc req =
     (Inl (HTTPException 401 ''Authentication failed''), svc, [])"
  by (simp add: forward_message_def)

lemma forward_message_registered:
  "\<not> timestamp_rejected (py_int (t_request clock)) (timestamp req) (req_message_type req) \<Longrightarrow>
   validate_and_decrypt (primitives env) (crypto_service env)
     (encrypted_payload req) (hmac_signature req) = Inr plaintext \<Longrightarrow>
   store_message (settings env) svc clock (dedup_hash (primitives env) req plaintext)
     (sender req) (resolve_type req plaintext) = (is_new, svc1) \<Longrightarrow>
   forward_message env clock svc req =
     (if \<not> is_new
      then (Inr \<lparr> success = True,
                  message = format_type env (resolve_type req plaintext) @ '' message already forwarded'',
                  whatsapp_message_id = None \<rparr>, svc1, [])
      else (case send_message (settings env) (http_post env) plaintext (sender req)
                   (resolve_type req plaintext) of
              (None, posted) \<Rightarrow>
                (Inl (HTTPException 500 ''Failed to send WhatsApp message''), svc1, posted)
            | (Some wid, posted) \<Rightarrow>
                if wid = []
                then (Inl (HTTPException 500 ''Failed to send WhatsApp message''), svc1, posted)
                else (Inr \<lparr> success = True,
                            message = format_type env (resolve_type req plaintext)
                                        @ '' message forwarded successfully'',
                            whatsapp_message_id = Some wid \<rparr>, svc1, posted)))"
  by (cases is_new) (simp_all add: forward_message_def Let_def)

lemma store_message_memory_present:
  assumes "redis svc = None"
      and "cleanup_expired (memory_store svc) (t_exists clock) h = Some d"
  shows "store_message cfg svc clock h s mt =
           (False, svc\<lparr>memory_store := cleanup_expired (memory_store svc) (t_exists clock)\<rparr>)"
  using assms by (simp add: store_message_def exists_key_def Let_def)

lemma store_message_memory_absent:
  assumes "redis svc = None"
      and "cleanup_expired (memory_store svc) (t_exists clock) h = None"
  shows "store_message cfg svc clock h s mt =
           (True, svc\<lparr>memory_store :=
              (cleanup_expired (cleanup_expired (memory_store svc) (t_exists clock)) (t_cleanup clock))
                (h \<mapsto> \<lparr> entry_sender = s, entry_message_type = type_value mt,
                         expires_at = t_stamp clock + real_of_int (get_ttl_for_type cfg mt) \<rparr>)\<rparr>)"
  using assms by (simp add: store_message_def exists_key_def Let_def)

lemma store_message_synchronous_redis:
  "store_message cfg \<lparr> redis = Some synchronous_redis, memory_store = ms \<rparr> clock h s mt
   = (False, \<lparr> redis = Some synchronous_redis, memory_store = ms \<rparr>)"
  by (simp add: store_message_def exists_key_def synchronous_redis_def)

lemma cleanup_expired_None: "store h = None \<Longrightarrow> cleanup_expired store t h = None"
  by (simp add: cleanup_expired_def)

lemma cleanup_expired_Some:
  "store h = Some d \<Longrightarrow> cleanup_expired store t h = (if t \<ge> expires_at d then None else Some d)"
  by (simp add: cleanup_expired_def)

subsection \<open>The sample requests pass the first two stages\<close>

lemma sample_decrypts:
  "validate_and_decrypt sample_primitives \<lparr> aes_key = ''k'', hmac_key = ''m'' \<rparr>
     (sample_payload ''hiya'') (sample_signature ''hiya'') = Inr ''hiya''"
  by code_simp

lemma sample_decrypts_ciao:
  "validate_and_decrypt sample_primitives \<lparr> aes_key = ''k'', hmac_key = ''m'' \<rparr>
     (sample_payload ''ciao'') (sample_signature ''ciao'') = Inr ''ciao''"
  by code_simp

lemma sample_request_decrypts:
  "validate_and_decrypt (primitives sample_env) (crypto_service sample_env)
     (encrypted_payload (sample_request ''hiya'' mt ts h)) (hmac_signature (sample_request ''hiya'' mt ts h))
   = Inr ''hiya''"
  "validate_and_decrypt (primitives sample_env) (crypto_service sample_env)
     (encrypted_payload (sample_request ''ciao'' mt ts h)) (hmac_signature (sample_request ''ciao'' mt ts h))
   = Inr ''ciao''"
  using sample_decrypts sample_decrypts_ciao by (simp_all add: sample_env_def sample_request_def)

lemma sample_request_fresh:
  "\<bar>ts - t\<bar> \<le> 300 \<Longrightarrow>
   \<not> timestamp_rejected (py_int (t_request (sample_clock (real_of_int t))))
        (timestamp (sample_request txt mt ts h)) (req_message_type (sample_request txt mt ts h))"
  by (auto simp: timestamp_rejected_def max_time_diff_def sample_clock_def sample_request_def py_int_def Let_def)

section \<open>The replay window\<close>

text \<open>
  Claim C4. The freshness check of \<^verbatim>\<open>forward_message\<close> accepts a request exactly when the
  distance between the current time and the timestamp is at most 300 seconds for the
  declared type OTP and at most 600 seconds for every other declared type; the request
  is answered with status 400 exactly when that bound is exceeded. The bound is
  inclusive: 300 (600) is accepted, 301 (601) is rejected.
\<close>

theorem replay_window:
  "(\<not> timestamp_rejected now ts mt) = (\<bar>now - ts\<bar> \<le> (if mt = OTP then 300 else 600))
   \<and> (fst (forward_message env clock svc req) = Inl (HTTPException 400 ''Request timestamp is invalid''))
       = (\<not> \<bar>py_int (t_request clock) - timestamp req\<bar> \<le> (if req_message_type req = OTP then 300 else 600))"
proof
  show "(\<not> timestamp_rejected now ts mt) = (\<bar>now - ts\<bar> \<le> (if mt = OTP then 300 else 600))"
    by (simp add: timestamp_rejected_def max_time_diff_def Let_def not_less)
next
  have "(fst (forward_message env clock svc req) = Inl (HTTPException 400 ''Request timestamp is invalid''))
      = timestamp_rejected (py_int (t_request clock)) (timestamp req) (req_message_type req)"
    by (auto simp: forward_message_def Let_def split: sum.splits prod.splits option.splits bool.splits)
  then show "(fst (forward_message env clock svc req) = Inl (HTTPException 400 ''Request timestamp is invalid''))
       = (\<not> \<bar>py_int (t_request clock) - timestamp req\<bar> \<le> (if req_message_type req = OTP then 300 else 600))"
    by (simp add: timestamp_rejected_def max_time_diff_def Let_def not_less not_le)
qed

theorem replay_window_witness:
  "\<not> timestamp_rejected 1700000300 1700000000 OTP \<and> timestamp_rejected 1700000301 1700000000 OTP
   \<and> \<not> timestamp_rejected 1700000000 1700000300 OTP \<and> timestamp_rejected 1700000000 1700000301 OTP
   \<and> \<not> timestamp_rejected 1700000600 1700000000 TRANSACTION \<and> timestamp_rejected 1700000601 1700000000 TRANSACTION
   \<and> \<not> timestamp_rejected 1700000600 1700000000 UNKNOWN \<and> timestamp_rejected 1700000000 1700000601 BILL
   \<and> fst (forward_message sample_env (sample_clock 1700000301) memory_service
             (sample_request ''hiya'' OTP 1700000000 None))
       = Inl (HTTPException 400 ''Request timestamp is invalid'')"
  using replay_window [of 1700000300 1700000000 OTP] replay_window [of 1700000301 1700000000 OTP]
    replay_window [of 1700000000 1700000300 OTP] replay_window [of 1700000000 1700000301 OTP]
    replay_window [of 1700000600 1700000000 TRANSACTION] replay_window [of 1700000601 1700000000 TRANSACTION]
    replay_window [of 1700000600 1700000000 UNKNOWN] replay_window [of 1700000000 1700000601 BILL]
    replay_window [of 0 0 OTP sample_env "sample_clock 1700000301" memory_service
                     "sample_request ''hiya'' OTP 1700000000 None"]
  by (simp add: sample_clock_def sample_request_def py_int_def)

section \<open>Deduplication in the in-memory store\<close>

text \<open>
  Claim C7. In the in-memory store, the registration of a fingerprint that is not held
  returns \<^verbatim>\<open>True\<close>; a repeated registration before the entry expires returns \<^verbatim>\<open>False\<close>;
  a registration once the clock has reached the expiry of the entry (the time of the
  first registration plus the time-to-live of its type) returns \<^verbatim>\<open>True\<close> again.
\<close>

theorem dedup_idempotence:
  assumes mem: "redis svc = None"
      and unseen: "case memory_store svc h of None \<Rightarrow> True | Some d \<Rightarrow> t_exists c1 \<ge> expires_at d"
      and first: "store_message cfg svc c1 h s1 m1 = (r1, svc1)"
      and second: "store_message cfg svc1 c2 h s2 m2 = (r2, svc2)"
      and third: "store_message cfg svc2 c3 h s3 m3 = (r3, svc3)"
      and early: "t_exists c2 < t_stamp c1 + real_of_int (get_ttl_for_type cfg m1)"
      and late: "t_exists c3 \<ge> t_stamp c1 + real_of_int (get_ttl_for_type cfg m1)"
  shows "r1 \<and> \<not> r2 \<and> r3
         \<and> map_option expires_at (memory_store svc1 h) = Some (t_stamp c1 + real_of_int (get_ttl_for_type cfg m1))"
proof -
  let ?d = "\<lparr> entry_sender = s1, entry_message_type = type_value m1,
              expires_at = t_stamp c1 + real_of_int (get_ttl_for_type cfg m1) \<rparr>"
  have gone: "cleanup_expired (memory_store svc) (t_exists c1) h = None"
    using unseen by (auto simp: cleanup_expired_def split: option.splits)
  from store_message_memory_absent [OF mem gone, of cfg s1 m1] first
  have r1: "r1" and svc1: "svc1 = svc\<lparr>memory_store :=
      (cleanup_expired (cleanup_expired (memory_store svc) (t_exists c1)) (t_cleanup c1))(h \<mapsto> ?d)\<rparr>"
    by simp_all
  have mem1: "redis svc1 = None" and at1: "memory_store svc1 h = Some ?d"
    using mem svc1 by simp_all
  have alive: "cleanup_expired (memory_store svc1) (t_exists c2) h = Some ?d"
    using at1 early by (simp add: cleanup_expired_Some)
  from store_message_memory_present [OF mem1 alive, of cfg s2 m2] second
  have r2: "\<not> r2" and svc2: "svc2 = svc1\<lparr>memory_store := cleanup_expired (memory_store svc1) (t_exists c2)\<rparr>"
    by simp_all
  have mem2: "redis svc2 = None" and at2: "memory_store svc2 h = Some ?d"
    using mem1 svc2 alive by simp_all
  have expired: "cleanup_expired (memory_store svc2) (t_exists c3) h = None"
    using at2 late by (simp add: cleanup_expired_Some)
  from store_message_memory_absent [OF mem2 expired, of cfg s3 m3] third
  have r3: "r3" by simp
  from r1 r2 r3 at1 show ?thesis by simp
qed

theorem dedup_idempotence_witness:
  "fst (store_message (default_settings ''911234567890'') memory_service (sample_clock 1000) ''ab12'' ''BANK'' OTP)
   \<and> \<not> fst (store_message (default_settings ''911234567890'')
              (snd (store_message (default_settings ''911234567890'') memory_service (sample_clock 1000) ''ab12'' ''BANK'' OTP))
              (sample_clock 1001) ''ab12'' ''BANK'' OTP)
   \<and> fst (store_message (default_settings ''911234567890'')
              (snd (store_message (default_settings ''911234567890'')
                 (snd (store_message (default_settings ''911234567890'') memory_service (sample_clock 1000) ''ab12'' ''BANK'' OTP))
                 (sample_clock 1001) ''ab12'' ''BANK'' OTP))
              (sample_clock 1300) ''ab12'' ''BANK'' OTP)"
proof -
  let ?cfg = "default_settings ''911234567890''"
  let ?a = "store_message ?cfg memory_service (sample_clock 1000) ''ab12'' ''BANK'' OTP"
  let ?b = "store_message ?cfg (snd ?a) (sample_clock 1001) ''ab12'' ''BANK'' OTP"
  let ?c = "store_message ?cfg (snd ?b) (sample_clock 1300) ''ab12'' ''BANK'' OTP"
  have mem: "redis memory_service = None" by (simp add: memory_service_def)
  have unseen: "case memory_store memory_service ''ab12'' of None \<Rightarrow> True
                | Some d \<Rightarrow> t_exists (sample_clock 1000) \<ge> expires_at d"
    by (simp add: memory_service_def)
  have early: "t_exists (sample_clock 1001) < t_stamp (sample_clock 1000) + real_of_int (get_ttl_for_type ?cfg OTP)"
    by (simp add: sample_clock_def get_ttl_for_type_def default_settings_def)
  have late: "t_exists (sample_clock 1300) \<ge> t_stamp (sample_clock 1000) + real_of_int (get_ttl_for_type ?cfg OTP)"
    by (simp add: sample_clock_def get_ttl_for_type_def default_settings_def)
  have "?a = (fst ?a, snd ?a)" "?b = (fst ?b, snd ?b)" "?c = (fst ?c, snd ?c)" by simp_all
  from dedup_idempotence [OF mem unseen this early late] show ?thesis by simp
qed

section \<open>A duplicate is a successful no-op\<close>

text \<open>
  Claim C8. When \<^verbatim>\<open>store_message\<close> reports a duplicate, \<^verbatim>\<open>forward_message\<close> answers with
  \<^verbatim>\<open>success = True\<close>, a message that says the message was already forwarded, no WhatsApp
  message id, and nothing is posted to the outbound channel.
\<close>

theorem duplicate_is_idempotent_success:
  assumes "\<not> timestamp_rejected (py_int (t_request clock)) (timestamp req) (req_message_type req)"
      and "validate_and_decrypt (primitives env) (crypto_service env)
             (encrypted_payload req) (hmac_signature req) = Inr plaintext"
      and "store_message (settings env) svc clock (dedup_hash (primitives env) req plaintext)
             (sender req) (resolve_type req plaintext) = (False, svc1)"
  shows "forward_message env clock svc req =
           (Inr \<lparr> success = True,
                  message = format_type env (resolve_type req plaintext) @ '' message already forwarded'',
                  whatsapp_message_id = None \<rparr>, svc1, [])"
  using forward_message_registered [OF assms] by simp

theorem duplicate_is_idempotent_success_witness:
  "fst (forward_message sample_env (sample_clock 1000) (registered_service ''ab12'' 1200)
          (sample_request ''hiya'' OTP 1000 (Some ''ab12'')))
     = Inr \<lparr> success = True, message = ''OTP message already forwarded'', whatsapp_message_id = None \<rparr>
   \<and> snd (snd (forward_message sample_env (sample_clock 1000) (registered_service ''ab12'' 1200)
          (sample_request ''hiya'' OTP 1000 (Some ''ab12'')))) = []"
proof -
  let ?req = "sample_request ''hiya'' OTP 1000 (Some ''ab12'')"
  let ?svc = "registered_service ''ab12'' 1200"
  have fresh: "\<not> timestamp_rejected (py_int (t_request (sample_clock 1000))) (timestamp ?req) (req_message_type ?req)"
    using sample_request_fresh [of 1000 1000 "''hiya''" OTP "Some ''ab12''"] by simp
  have key: "dedup_hash (primitives sample_env) ?req ''hiya'' = ''ab12''"
    by (simp add: dedup_hash_def sample_request_def)
  have "store_message (settings sample_env) ?svc (sample_clock 1000) ''ab12'' (sender ?req)
          (resolve_type ?req ''hiya'')
        = (False, ?svc\<lparr>memory_store := cleanup_expired (memory_store ?svc) (t_exists (sample_clock 1000))\<rparr>)"
    by (rule store_message_memory_present)
       (simp_all add: registered_service_def cleanup_expired_def sample_clock_def)
  with key have dup: "store_message (settings sample_env) ?svc (sample_clock 1000)
          (dedup_hash (primitives sample_env) ?req ''hiya'') (sender ?req) (resolve_type ?req ''hiya'')
        = (False, ?svc\<lparr>memory_store := cleanup_expired (memory_store ?svc) (t_exists (sample_clock 1000))\<rparr>)"
    by simp
  from duplicate_is_idempotent_success [OF fresh sample_request_decrypts(1) dup]
  show ?thesis
    by (simp add: resolve_type_def sample_request_def sample_env_def type_value_def)
qed

section \<open>A failing store\<close>

text \<open>
  Claim C2. With a Redis client whose commands raise, \<^verbatim>\<open>exists\<close> answers \<^verbatim>\<open>False\<close> and
  \<^verbatim>\<open>store_message\<close> catches the failed write and returns \<^verbatim>\<open>False\<close>, the value that stands
  for a duplicate: a fresh, authentic request is answered with \<^verbatim>\<open>success = True\<close> and
  "already forwarded", and it is not forwarded.
\<close>

theorem storage_failure_reported_as_duplicate:
  "forward_message sample_env (sample_clock 1000)
     \<lparr> redis = Some unreachable_redis, memory_store = Map.empty \<rparr>
     (sample_request ''hiya'' OTP 1000 None)
   = (Inr \<lparr> success = True, message = ''OTP message already forwarded'', whatsapp_message_id = None \<rparr>,
      \<lparr> redis = Some unreachable_redis, memory_store = Map.empty \<rparr>, [])"
proof -
  let ?req = "sample_request ''hiya'' OTP 1000 None"
  let ?svc = "\<lparr> redis = Some unreachable_redis, memory_store = Map.empty \<rparr>"
  have fresh: "\<not> timestamp_rejected (py_int (t_request (sample_clock 1000))) (timestamp ?req) (req_message_type ?req)"
    using sample_request_fresh [of 1000 1000 "''hiya''" OTP None] by simp
  have failed: "store_message (settings sample_env) ?svc (sample_clock 1000)
          (dedup_hash (primitives sample_env) ?req ''hiya'') (sender ?req) (resolve_type ?req ''hiya'')
        = (False, ?svc)"
    by (simp add: store_message_def exists_key_def unreachable_redis_def)
  from forward_message_registered [OF fresh sample_request_decrypts(1) failed]
  show ?thesis
    by (simp add: resolve_type_def sample_request_def sample_env_def type_value_def)
qed

section \<open>The supplied hash is the fingerprint\<close>







section \<open>Authentication failures\<close>

lemma verify_hmac_unique:
  "verify_hmac P svc payload sg \<Longrightarrow> sg' \<noteq> sg \<Longrightarrow> \<not> verify_hmac P svc payload sg'"
  by (auto simp: verify_hmac_def compare_digest_def Let_def split: if_splits)

lemma verify_hmac_needs_mac:
  "hmac_sha256_hexdigest P (hmac_key svc) (utf8_encode P payload) \<noteq> sg \<Longrightarrow> \<not> verify_hmac P svc payload sg"
  by (auto simp: verify_hmac_def compare_digest_def Let_def split: if_splits)

lemma decrypt_otp_errors:
  "decrypt_otp P svc payload = Inl e \<Longrightarrow>
   e = ValueError ''Decryption failed: Invalid authentication tag'' \<or> e = ValueError ''Decryption failed''"
  by (auto simp: decrypt_otp_def Let_def split: option.splits aead_outcome.splits)

lemma sample_bad_encoding:
  "decrypt_otp sample_primitives \<lparr> aes_key = ''k'', hmac_key = ''m'' \<rparr> ''invalid_base64_data''
   = Inl (ValueError ''Decryption failed'')"
  by code_simp

lemma sample_bad_tag:
  "decrypt_otp sample_primitives \<lparr> aes_key = ''k'', hmac_key = ''m'' \<rparr> (tampered_payload ''hiya'')
   = Inl (ValueError ''Decryption failed: Invalid authentication tag'')"
  by code_simp

lemma sample_bad_signature:
  "validate_and_decrypt sample_primitives \<lparr> aes_key = ''k'', hmac_key = ''m'' \<rparr>
     (sample_payload ''hiya'') (replicate 64 CHR ''0'') = Inl (ValueError ''HMAC verification failed'')"
  by code_simp

lemma sample_verifies:
  "verify_hmac sample_primitives \<lparr> aes_key = ''k'', hmac_key = ''m'' \<rparr>
     (sample_payload ''hiya'') (sample_signature ''hiya'')"
  by code_simp

lemma sample_signatures_differ:
  "replicate 64 CHR ''0'' \<noteq> sample_signature ''hiya''"
  "hmac_sha256_hexdigest sample_primitives (hmac_key \<lparr> aes_key = ''k'', hmac_key = ''m'' \<rparr>)
     (utf8_encode sample_primitives (tampered_payload ''hiya'')) \<noteq> sample_signature ''hiya''"
  by code_simp+

text \<open>
  Claim C3 as stated fails: the caller of \<^verbatim>\<open>decrypt_otp\<close> and of \<^verbatim>\<open>validate_and_decrypt\<close>
  can tell the causes apart. A payload that is not valid transport encoding, a payload
  whose tag does not verify, and a wrong signature raise \<^verbatim>\<open>ValueError\<close> with three
  different messages.
\<close>

theorem decrypt_failure_tells_its_cause:
  "decrypt_otp sample_primitives \<lparr> aes_key = ''k'', hmac_key = ''m'' \<rparr> ''invalid_base64_data''
     = Inl (ValueError ''Decryption failed'')
   \<and> decrypt_otp sample_primitives \<lparr> aes_key = ''k'', hmac_key = ''m'' \<rparr> (tampered_payload ''hiya'')
     = Inl (ValueError ''Decryption failed: Invalid authentication tag'')
   \<and> validate_and_decrypt sample_primitives \<lparr> aes_key = ''k'', hmac_key = ''m'' \<rparr>
       (sample_payload ''hiya'') (replicate 64 CHR ''0'')
     = Inl (ValueError ''HMAC verification failed'')
   \<and> decrypt_otp sample_primitives \<lparr> aes_key = ''k'', hmac_key = ''m'' \<rparr> ''invalid_base64_data''
     \<noteq> decrypt_otp sample_primitives \<lparr> aes_key = ''k'', hmac_key = ''m'' \<rparr> (tampered_payload ''hiya'')"
  by (simp add: sample_bad_encoding sample_bad_tag sample_bad_signature)

text \<open>
  Claim C3, amended. Every failure of \<^verbatim>\<open>decrypt_otp\<close> and of \<^verbatim>\<open>validate_and_decrypt\<close> is a
  \<^verbatim>\<open>ValueError\<close> whose message is one of three fixed texts, and the endpoint answers each
  of them with the same 401 "Authentication failed". A signature other than one that
  verifies, and a payload whose MAC is not the supplied signature, fail with the
  \<^verbatim>\<open>ValueError\<close> "HMAC verification failed", before any decryption.
\<close>

theorem authentication_failure_kinds:
  "(decrypt_otp P svc payload = Inl e1 \<longrightarrow>
      e1 = ValueError ''Decryption failed: Invalid authentication tag'' \<or> e1 = ValueError ''Decryption failed'')
   \<and> (validate_and_decrypt P svc payload sg = Inl e2 \<longrightarrow>
      e2 = ValueError ''HMAC verification failed''
      \<or> e2 = ValueError ''Decryption failed: Invalid authentication tag''
      \<or> e2 = ValueError ''Decryption failed'')
   \<and> (\<not> timestamp_rejected (py_int (t_request clock)) (timestamp req) (req_message_type req)
       \<and> validate_and_decrypt (primitives env) (crypto_service env)
            (encrypted_payload req) (hmac_signature req) = Inl e3 \<longrightarrow>
      forward_message env clock st req = (Inl (HTTPException 401 ''Authentication failed''), st, []))
   \<and> (verify_hmac P svc payload sg \<and> sg' \<noteq> sg \<longrightarrow>
      validate_and_decrypt P svc payload sg' = Inl (ValueError ''HMAC verification failed''))
   \<and> (hmac_sha256_hexdigest P (hmac_key svc) (utf8_encode P payload') \<noteq> sg \<longrightarrow>
      validate_and_decrypt P svc payload' sg = Inl (ValueError ''HMAC verification failed''))"
proof (intro conjI impI)
  assume "decrypt_otp P svc payload = Inl e1"
  then show "e1 = ValueError ''Decryption failed: Invalid authentication tag'' \<or> e1 = ValueError ''Decryption failed''"
    by (rule decrypt_otp_errors)
next
  assume "validate_and_decrypt P svc payload sg = Inl e2"
  then show "e2 = ValueError ''HMAC verification failed''
      \<or> e2 = ValueError ''Decryption failed: Invalid authentication tag''
      \<or> e2 = ValueError ''Decryption failed''"
    using decrypt_otp_errors [of P svc payload e2]
    by (auto simp: validate_and_decrypt_def split: if_splits)
next
  assume "\<not> timestamp_rejected (py_int (t_request clock)) (timestamp req) (req_message_type req)
       \<and> validate_and_decrypt (primitives env) (crypto_service env)
            (encrypted_payload req) (hmac_signature req) = Inl e3"
  then show "forward_message env clock st req = (Inl (HTTPException 401 ''Authentication failed''), st, [])"
    using forward_message_unauthenticated by blast
next
  assume "verify_hmac P svc payload sg \<and> sg' \<noteq> sg"
  then have "\<not> verify_hmac P svc payload sg'" using verify_hmac_unique by blast
  then show "validate_and_decrypt P svc payload sg' = Inl (ValueError ''HMAC verification failed'')"
    by (simp add: validate_and_decrypt_def)
next
  assume "hmac_sha256_hexdigest P (hmac_key svc) (utf8_encode P payload') \<noteq> sg"
  then have "\<not> verify_hmac P svc payload' sg" by (rule verify_hmac_needs_mac)
  then show "validate_and_decrypt P svc payload' sg = Inl (ValueError ''HMAC verification failed'')"
    by (simp add: validate_and_decrypt_def)
qed

theorem authentication_failure_kinds_witness:
  "validate_and_decrypt sample_primitives \<lparr> aes_key = ''k'', hmac_key = ''m'' \<rparr>
       (sample_payload ''hiya'') (replicate 64 CHR ''0'')
     = Inl (ValueError ''HMAC verification failed'')
   \<and> validate_and_decrypt sample_primitives \<lparr> aes_key = ''k'', hmac_key = ''m'' \<rparr>
       (tampered_payload ''hiya'') (sample_signature ''hiya'')
     = Inl (ValueError ''HMAC verification failed'')
   \<and> forward_message sample_env (sample_clock 1000) memory_service
       ((sample_request ''hiya'' OTP 1000 None)\<lparr>hmac_signature := replicate 64 CHR ''0''\<rparr>)
     = (Inl (HTTPException 401 ''Authentication failed''), memory_service, [])"
proof -
  let ?svc = "\<lparr> aes_key = ''k'', hmac_key = ''m'' \<rparr>"
  let ?req = "(sample_request ''hiya'' OTP 1000 None)\<lparr>hmac_signature := replicate 64 CHR ''0''\<rparr>"
  note inst = authentication_failure_kinds
    [of sample_primitives ?svc "sample_payload ''hiya''" _ "sample_signature ''hiya''" _
        "sample_clock 1000" ?req sample_env "ValueError ''HMAC verification failed''" memory_service
        "replicate 64 CHR ''0''" "tampered_payload ''hiya''"]
  have fresh: "\<not> timestamp_rejected (py_int (t_request (sample_clock 1000))) (timestamp ?req) (req_message_type ?req)"
    using sample_request_fresh [of 1000 1000 "''hiya''" OTP None] by (simp add: sample_request_def)
  have bad: "validate_and_decrypt (primitives sample_env) (crypto_service sample_env)
            (encrypted_payload ?req) (hmac_signature ?req) = Inl (ValueError ''HMAC verification failed'')"
    using sample_bad_signature by (simp add: sample_env_def sample_request_def)
  from inst fresh bad sample_verifies sample_signatures_differ show ?thesis by blast
qed

section \<open>The classifier\<close>

text \<open>
  \<^verbatim>\<open>classify\<close> asks the four checkers in turn and returns the first result that is not
  \<^verbatim>\<open>None\<close>; each checker only ever returns a result of its own type.
\<close>

lemma classify_cases:
  "classify m s =
     (case check_otp m (lower m) of Some r \<Rightarrow> r | None \<Rightarrow>
      case check_transaction m (lower m) of Some r \<Rightarrow> r | None \<Rightarrow>
      case check_security_alert m (lower m) of Some r \<Rightarrow> r | None \<Rightarrow>
      case check_bill m (lower m) of Some r \<Rightarrow> r | None \<Rightarrow>
        \<lparr> message_type = UNKNOWN, confidence = 0.0,
          metadata = [(''reason'', MStr ''No matching patterns'')] \<rparr>)"
  by (simp only: classify_def Let_def)

lemma check_types:
  "check_otp m l = Some r \<Longrightarrow> message_type r = OTP"
  "check_transaction m l = Some r \<Longrightarrow> message_type r = TRANSACTION"
  "check_security_alert m l = Some r \<Longrightarrow> message_type r = SECURITY_ALERT"
  "check_bill m l = Some r \<Longrightarrow> message_type r = BILL"
  by (auto simp: check_otp_def check_transaction_def check_security_alert_def check_bill_def Let_def
           split: if_splits)

subsection \<open>Sample messages\<close>

text \<open>
  What the checkers answer on some messages: the regular expressions of the tables are
  run on the text.
\<close>

lemma otp_example:
  "check_otp ''Your OTP code is 482913, do not share'' (lower ''Your OTP code is 482913, do not share'')
   = Some \<lparr> message_type = OTP, confidence = 0.95,
            metadata = [(''has_otp'', MBool True), (''urgency'', MStr ''high'')] \<rparr>"
  by code_simp

lemma all_categories_example:
  "check_otp ''alert OTP 1234 Rs 5 debited, bill''
     (lower ''alert OTP 1234 Rs 5 debited, bill'')
   = Some \<lparr> message_type = OTP, confidence = 0.95,
            metadata = [(''has_otp'', MBool True), (''urgency'', MStr ''high'')] \<rparr>"
  "check_transaction ''alert OTP 1234 Rs 5 debited, bill''
     (lower ''alert OTP 1234 Rs 5 debited, bill'') \<noteq> None"
  "check_security_alert ''alert OTP 1234 Rs 5 debited, bill''
     (lower ''alert OTP 1234 Rs 5 debited, bill'') \<noteq> None"
  "check_bill ''alert OTP 1234 Rs 5 debited, bill''
     (lower ''alert OTP 1234 Rs 5 debited, bill'') \<noteq> None"
  by code_simp+

lemma transaction_first_example:
  "check_otp ''alert Rs 5 debited, bill''
     (lower ''alert Rs 5 debited, bill'') = None"
  "check_transaction ''alert Rs 5 debited, bill''
     (lower ''alert Rs 5 debited, bill'')
   = Some \<lparr> message_type = TRANSACTION, confidence = 0.9,
            metadata = [(''has_amount'', MBool True), (''urgency'', MStr ''medium'')] \<rparr>"
  "check_security_alert ''alert Rs 5 debited, bill''
     (lower ''alert Rs 5 debited, bill'') \<noteq> None"
  "check_bill ''alert Rs 5 debited, bill''
     (lower ''alert Rs 5 debited, bill'') \<noteq> None"
  by code_simp+

lemma security_first_example:
  "check_otp ''alert: bill Rs 5'' (lower ''alert: bill Rs 5'') = None"
  "check_transaction ''alert: bill Rs 5'' (lower ''alert: bill Rs 5'') = None"
  "check_security_alert ''alert: bill Rs 5'' (lower ''alert: bill Rs 5'')
   = Some \<lparr> message_type = SECURITY_ALERT, confidence = 0.85, metadata = [(''urgency'', MStr ''high'')] \<rparr>"
  "check_bill ''alert: bill Rs 5'' (lower ''alert: bill Rs 5'') \<noteq> None"
  by code_simp+

lemma bill_example:
  "check_otp ''bill Rs 5'' (lower ''bill Rs 5'') = None"
  "check_transaction ''bill Rs 5'' (lower ''bill Rs 5'') = None"
  "check_security_alert ''bill Rs 5'' (lower ''bill Rs 5'') = None"
  "check_bill ''bill Rs 5'' (lower ''bill Rs 5'')
   = Some \<lparr> message_type = BILL, confidence = 0.8,
            metadata = [(''has_amount'', MBool True), (''urgency'', MStr ''low'')] \<rparr>"
  by code_simp+

lemma unknown_example:
  "check_otp ''acct 12345678 Rs 5000'' (lower ''acct 12345678 Rs 5000'') = None"
  "check_transaction ''acct 12345678 Rs 5000'' (lower ''acct 12345678 Rs 5000'') = None"
  "check_security_alert ''acct 12345678 Rs 5000'' (lower ''acct 12345678 Rs 5000'') = None"
  "check_bill ''acct 12345678 Rs 5000'' (lower ''acct 12345678 Rs 5000'') = None"
  by code_simp+


lemma debit_message_checks:
  "check_otp ''Rs 5000 debited from A/c XX1234'' (lower ''Rs 5000 debited from A/c XX1234'') = None"
  "check_transaction ''Rs 5000 debited from A/c XX1234'' (lower ''Rs 5000 debited from A/c XX1234'')
   = Some \<lparr> message_type = TRANSACTION, confidence = 0.9,
            metadata = [(''has_amount'', MBool True), (''urgency'', MStr ''medium'')] \<rparr>"
  by code_simp+

lemma debit_message_masked:
  "mask_sensitive_data ''Rs 5000 debited from A/c XX1234'' = ''Rs **** debited from A/c XX****''"
  "str_in ''debit'' (lower ''Rs 5000 debited from A/c XX1234'')"
  "\<not> str_in ''5000'' ''Rs **** debited from A/c XX****''"
  "\<not> str_in ''1234'' ''Rs **** debited from A/c XX****''"
  by code_simp+





section \<open>The priority of the categories\<close>

text \<open>
  Claim C5. \<^verbatim>\<open>classify\<close> tries the categories in the order OTP, TRANSACTION, SECURITY_ALERT,
  BILL and returns the result of the first checker that matches; when none matches it
  returns UNKNOWN with confidence 0.0 and the reason ``No matching patterns''. On the message
  ``Your OTP code is 482913, do not share'' from the sender ``BANK'' the result is OTP with
  confidence 0.95.
\<close>

theorem classifier_priority:
  "(check_otp m (lower m) = Some ra \<longrightarrow> classify m s = ra \<and> message_type ra = OTP)
   \<and> (check_otp m (lower m) = None \<and> check_transaction m (lower m) = Some rb \<longrightarrow>
        classify m s = rb \<and> message_type rb = TRANSACTION)
   \<and> (check_otp m (lower m) = None \<and> check_transaction m (lower m) = None
        \<and> check_security_alert m (lower m) = Some rc \<longrightarrow>
        classify m s = rc \<and> message_type rc = SECURITY_ALERT)
   \<and> (check_otp m (lower m) = None \<and> check_transaction m (lower m) = None
        \<and> check_security_alert m (lower m) = None \<and> check_bill m (lower m) = Some rd \<longrightarrow>
        classify m s = rd \<and> message_type rd = BILL)
   \<and> (check_otp m (lower m) = None \<and> check_transaction m (lower m) = None
        \<and> check_security_alert m (lower m) = None \<and> check_bill m (lower m) = None \<longrightarrow>
        classify m s = \<lparr> message_type = UNKNOWN, confidence = 0.0,
                          metadata = [(''reason'', MStr ''No matching patterns'')] \<rparr>)
   \<and> classify ''Your OTP code is 482913, do not share'' ''BANK''
       = \<lparr> message_type = OTP, confidence = 0.95,
           metadata = [(''has_otp'', MBool True), (''urgency'', MStr ''high'')] \<rparr>"
proof (intro conjI impI)
  show "classify ''Your OTP code is 482913, do not share'' ''BANK''
       = \<lparr> message_type = OTP, confidence = 0.95,
           metadata = [(''has_otp'', MBool True), (''urgency'', MStr ''high'')] \<rparr>"
    by (simp add: classify_cases otp_example)
qed (auto simp: classify_cases dest: check_types)

theorem classifier_priority_witness:
  "message_type (classify ''alert OTP 1234 Rs 5 debited, bill'' ''BANK'') = OTP
   \<and> message_type (classify ''alert Rs 5 debited, bill'' ''BANK'') = TRANSACTION
   \<and> message_type (classify ''alert: bill Rs 5'' ''BANK'') = SECURITY_ALERT
   \<and> message_type (classify ''bill Rs 5'' ''BANK'') = BILL
   \<and> message_type (classify ''acct 12345678 Rs 5000'' ''BANK'') = UNKNOWN
   \<and> confidence (classify ''acct 12345678 Rs 5000'' ''BANK'') = 0
   \<and> check_transaction ''alert OTP 1234 Rs 5 debited, bill''
        (lower ''alert OTP 1234 Rs 5 debited, bill'') \<noteq> None
   \<and> check_security_alert ''alert Rs 5 debited, bill''
        (lower ''alert Rs 5 debited, bill'') \<noteq> None
   \<and> check_bill ''alert: bill Rs 5'' (lower ''alert: bill Rs 5'') \<noteq> None"
proof -
  have a: "classify ''alert OTP 1234 Rs 5 debited, bill'' ''BANK''
        = \<lparr> message_type = OTP, confidence = 0.95,
            metadata = [(''has_otp'', MBool True), (''urgency'', MStr ''high'')] \<rparr>"
    using classifier_priority [where m = "''alert OTP 1234 Rs 5 debited, bill''"
            and s = "''BANK''"
            and ra = "\<lparr> message_type = OTP, confidence = 0.95,
                       metadata = [(''has_otp'', MBool True), (''urgency'', MStr ''high'')] \<rparr>"]
          all_categories_example(1)
    by blast
  have b: "classify ''alert Rs 5 debited, bill'' ''BANK''
        = \<lparr> message_type = TRANSACTION, confidence = 0.9,
            metadata = [(''has_amount'', MBool True), (''urgency'', MStr ''medium'')] \<rparr>"
    using classifier_priority [where m = "''alert Rs 5 debited, bill''"
            and s = "''BANK''"
            and rb = "\<lparr> message_type = TRANSACTION, confidence = 0.9,
                       metadata = [(''has_amount'', MBool True), (''urgency'', MStr ''medium'')] \<rparr>"]
          transaction_first_example(1,2)
    by blast
  have c: "classify ''alert: bill Rs 5'' ''BANK''
        = \<lparr> message_type = SECURITY_ALERT, confidence = 0.85, metadata = [(''urgency'', MStr ''high'')] \<rparr>"
    using classifier_priority [where m = "''alert: bill Rs 5''" and s = "''BANK''"
            and rc = "\<lparr> message_type = SECURITY_ALERT, confidence = 0.85,
                       metadata = [(''urgency'', MStr ''high'')] \<rparr>"]
          security_first_example(1,2,3)
    by blast
  have d: "classify ''bill Rs 5'' ''BANK''
        = \<lparr> message_type = BILL, confidence = 0.8,
            metadata = [(''has_amount'', MBool True), (''urgency'', MStr ''low'')] \<rparr>"
    using classifier_priority [where m = "''bill Rs 5''" and s = "''BANK''"
            and rd = "\<lparr> message_type = BILL, confidence = 0.8,
                       metadata = [(''has_amount'', MBool True), (''urgency'', MStr ''low'')] \<rparr>"]
          bill_example
    by blast
  have e: "classify ''acct 12345678 Rs 5000'' ''BANK''
        = \<lparr> message_type = UNKNOWN, confidence = 0.0,
            metadata = [(''reason'', MStr ''No matching patterns'')] \<rparr>"
    using classifier_priority [where m = "''acct 12345678 Rs 5000''" and s = "''BANK''"]
          unknown_example
    by blast
  show ?thesis
    unfolding a b c d e
    using all_categories_example(2) transaction_first_example(3) security_first_example(4)
    by simp
qed


section \<open>Masking of a transaction message\<close>

text \<open>
  Claim C6. The message ``Rs 5000 debited from A/c XX1234'' is classified as TRANSACTION
  with the metadata entry \<^verbatim>\<open>has_amount\<close> set to \<^verbatim>\<open>True\<close>, whatever the sender; the summary
  that \<^verbatim>\<open>render_template_params\<close> produces for it is ``Rs **** debited from A/c XX****'',
  which contains neither ``5000'' nor ``1234''.
\<close>

theorem masking_example:
  "classify ''Rs 5000 debited from A/c XX1234'' s
     = \<lparr> message_type = TRANSACTION, confidence = 0.9,
         metadata = [(''has_amount'', MBool True), (''urgency'', MStr ''medium'')] \<rparr>
   \<and> map_of (metadata (classify ''Rs 5000 debited from A/c XX1234'' s)) ''has_amount'' = Some (MBool True)
   \<and> render_template_params (message_type (classify ''Rs 5000 debited from A/c XX1234'' s)) s
        ''Rs 5000 debited from A/c XX1234''
     = [Param ''text'' ''Debit Alert'', Param ''text'' s, Param ''text'' ''Rs **** debited from A/c XX****'']
   \<and> \<not> str_in ''5000'' ''Rs **** debited from A/c XX****''
   \<and> \<not> str_in ''1234'' ''Rs **** debited from A/c XX****''"
proof -
  have c: "classify ''Rs 5000 debited from A/c XX1234'' s
     = \<lparr> message_type = TRANSACTION, confidence = 0.9,
         metadata = [(''has_amount'', MBool True), (''urgency'', MStr ''medium'')] \<rparr>"
    by (simp add: classify_cases debit_message_checks)
  have r: "render_template_params TRANSACTION s ''Rs 5000 debited from A/c XX1234''
     = [Param ''text'' ''Debit Alert'', Param ''text'' s, Param ''text'' ''Rs **** debited from A/c XX****'']"
    by (simp add: render_template_params_def render_transaction_params_def Let_def debit_message_masked)
  have t: "message_type (classify ''Rs 5000 debited from A/c XX1234'' s) = TRANSACTION"
    and h: "map_of (metadata (classify ''Rs 5000 debited from A/c XX1234'' s)) ''has_amount'' = Some (MBool True)"
    unfolding c by simp_all
  from c h r [folded t] debit_message_masked(3,4) show ?thesis by (intro conjI)
qed

theorem masking_example_witness:
  "param_text (render_template_params (message_type (classify ''Rs 5000 debited from A/c XX1234'' ''BANK''))
       ''BANK'' ''Rs 5000 debited from A/c XX1234'' ! 2) = ''Rs **** debited from A/c XX****''
   \<and> message_type (classify ''Rs 5000 debited from A/c XX1234'' ''BANK'') = TRANSACTION"
proof -
  from masking_example [of "''BANK''"]
  have c: "classify ''Rs 5000 debited from A/c XX1234'' ''BANK''
     = \<lparr> message_type = TRANSACTION, confidence = 0.9,
         metadata = [(''has_amount'', MBool True), (''urgency'', MStr ''medium'')] \<rparr>"
    and r: "render_template_params (message_type (classify ''Rs 5000 debited from A/c XX1234'' ''BANK'')) ''BANK''
        ''Rs 5000 debited from A/c XX1234''
     = [Param ''text'' ''Debit Alert'', Param ''text'' ''BANK'', Param ''text'' ''Rs **** debited from A/c XX****'']"
    by blast+
  show ?thesis unfolding r unfolding c by simp
qed


section \<open>Which summaries are masked\<close>




section \<open>Two arrivals with the same fingerprint\<close>

text \<open>
  \<^verbatim>\<open>store_message\<close> has no point at which the event loop runs another request: without a
  client nothing is awaited but \<^verbatim>\<open>exists\<close>, which awaits nothing; with the client of the
  source each awaited command raises before the coroutine is suspended. Two arrivals are
  registered one after the other. The code holds no lock and sends no conditional write:
  the check is \<^verbatim>\<open>exists\<close>, the write \<^verbatim>\<open>SETEX\<close> or an assignment to the dictionary.
\<close>

lemma memory_arrivals_one_first_seen:
  assumes "redis svc = None" and "memory_store svc h = None"
      and "store_message cfg svc c1 h s1 mt1 = (first, svc1)"
      and "t_exists c2 < t_stamp c1 + real_of_int (get_ttl_for_type cfg mt1)"
  shows "first \<and> \<not> fst (store_message cfg svc1 c2 h s2 mt2)"
proof -
  have gone: "cleanup_expired (memory_store svc) (t_exists c1) h = None"
    using assms(2) by (rule cleanup_expired_None)
  note reg = store_message_memory_absent [OF assms(1) gone, where cfg = cfg and s = s1 and mt = mt1]
  from reg assms(3) have first: first and svc1: "svc1 = snd (store_message cfg svc c1 h s1 mt1)"
    by simp_all
  have mem1: "redis svc1 = None" using svc1 reg assms(1) by simp
  have "cleanup_expired (memory_store svc1) (t_exists c2) h
        = Some \<lparr> entry_sender = s1, entry_message_type = type_value mt1,
                 expires_at = t_stamp c1 + real_of_int (get_ttl_for_type cfg mt1) \<rparr>"
    using svc1 reg assms(4) by (simp add: cleanup_expired_Some)
  from store_message_memory_present [OF mem1 this] first show ?thesis by simp
qed

text \<open>
  Claim C9. With the Redis client of the source the registration is not an atomic
  check-and-set, and of two arrivals that carry the same fingerprint neither observes
  \<^verbatim>\<open>True\<close>: the awaited \<^verbatim>\<open>EXISTS\<close> raises and \<^verbatim>\<open>exists\<close> answers \<^verbatim>\<open>False\<close>, the awaited
  \<^verbatim>\<open>SETEX\<close> raises and \<^verbatim>\<open>store_message\<close> returns \<^verbatim>\<open>False\<close>, for the first arrival and for
  the second.
\<close>

theorem redis_arrivals_both_duplicates:
  "store_message cfg \<lparr> redis = Some synchronous_redis, memory_store = ms \<rparr> c1 h s1 mt1
     = (False, \<lparr> redis = Some synchronous_redis, memory_store = ms \<rparr>)
   \<and> store_message cfg
       (snd (store_message cfg \<lparr> redis = Some synchronous_redis, memory_store = ms \<rparr> c1 h s1 mt1))
       c2 h s2 mt2
     = (False, \<lparr> redis = Some synchronous_redis, memory_store = ms \<rparr>)"
  by (simp add: store_message_synchronous_redis)

end
